theory Spec2Isabelle
  imports Main "HOL-Library.Word"
begin

unbundle bit_operations_syntax

section \<open>Strings\<close>

text \<open>
  A JavaScript string is a sequence of UTF-16 code units. The type \<^typ>\<open>string\<close> holds the
  strings all of whose code units are below 256 (Basic Latin and Latin-1 Supplement), one
  \<^typ>\<open>char\<close> per code unit. This set is closed under \<open>String.prototype.toLowerCase\<close>:
  the only cased code units in it whose lower case differs are \<open>A\<close>--\<open>Z\<close> (65--90) and
  U+00C0--U+00DE without the multiplication sign U+00D7, each mapped 32 places up.
\<close>

definition toLowerCase_unit :: "char \<Rightarrow> char" where
  "toLowerCase_unit c =
     (let n = (of_char c :: nat)
      in if (65 \<le> n \<and> n \<le> 90) \<or> (192 \<le> n \<and> n \<le> 222 \<and> n \<noteq> 215)
         then char_of (n + 32) else c)"

definition toLowerCase :: "string \<Rightarrow> string" where
  "toLowerCase s = map toLowerCase_unit s"

section \<open>hashUtils.js\<close>

subsection \<open>The platform: \<open>TextEncoder\<close> and \<open>crypto.subtle.digest\<close>\<close>

text \<open>
  \<open>new TextEncoder().encode(input)\<close> yields the UTF-8 bytes of the string: a code unit below 128
  is one byte, a code unit from 128 to 255 is the two bytes \<open>110xxxxx 10xxxxxx\<close>.
  \<open>crypto.subtle.digest("SHA-256", buffer)\<close> is SHA-256 as FIPS 180-4 defines it: pad the
  message to a multiple of 64 bytes, cut it into blocks, expand each block into a schedule of
  64 words and run 64 rounds of the compression function over the eight working variables.
\<close>

type_synonym byte = "8 word"
type_synonym u32 = "32 word"

definition utf8_unit :: "char \<Rightarrow> byte list" where
  "utf8_unit c =
     (let n = (of_char c :: nat)
      in if n < 128 then [of_nat n] else [of_nat (192 + n div 64), of_nat (128 + n mod 64)])"

definition TextEncoder_encode :: "string \<Rightarrow> byte list" where
  "TextEncoder_encode input = concat (map utf8_unit input)"

definition rotr :: "nat \<Rightarrow> u32 \<Rightarrow> u32" where
  "rotr n x = drop_bit n x OR push_bit (32 - n) x"

definition Ch :: "u32 \<Rightarrow> u32 \<Rightarrow> u32 \<Rightarrow> u32" where
  "Ch x y z = (x AND y) XOR (NOT x AND z)"

definition Maj :: "u32 \<Rightarrow> u32 \<Rightarrow> u32 \<Rightarrow> u32" where
  "Maj x y z = (x AND y) XOR (x AND z) XOR (y AND z)"

definition Sigma0 :: "u32 \<Rightarrow> u32" where
  "Sigma0 x = rotr 2 x XOR rotr 13 x XOR rotr 22 x"

definition Sigma1 :: "u32 \<Rightarrow> u32" where
  "Sigma1 x = rotr 6 x XOR rotr 11 x XOR rotr 25 x"

definition sigma0 :: "u32 \<Rightarrow> u32" where
  "sigma0 x = rotr 7 x XOR rotr 18 x XOR drop_bit 3 x"

definition sigma1 :: "u32 \<Rightarrow> u32" where
  "sigma1 x = rotr 17 x XOR rotr 19 x XOR drop_bit 10 x"

definition K256 :: "u32 list" where
  "K256 =
   [0x428A2F98, 0x71374491, 0xB5C0FBCF, 0xE9B5DBA5, 0x3956C25B, 0x59F111F1, 0x923F82A4, 0xAB1C5ED5,
    0xD807AA98, 0x12835B01, 0x243185BE, 0x550C7DC3, 0x72BE5D74, 0x80DEB1FE, 0x9BDC06A7, 0xC19BF174,
    0xE49B69C1, 0xEFBE4786, 0x0FC19DC6, 0x240CA1CC, 0x2DE92C6F, 0x4A7484AA, 0x5CB0A9DC, 0x76F988DA,
    0x983E5152, 0xA831C66D, 0xB00327C8, 0xBF597FC7, 0xC6E00BF3, 0xD5A79147, 0x06CA6351, 0x14292967,
    0x27B70A85, 0x2E1B2138, 0x4D2C6DFC, 0x53380D13, 0x650A7354, 0x766A0ABB, 0x81C2C92E, 0x92722C85,
    0xA2BFE8A1, 0xA81A664B, 0xC24B8B70, 0xC76C51A3, 0xD192E819, 0xD6990624, 0xF40E3585, 0x106AA070,
    0x19A4C116, 0x1E376C08, 0x2748774C, 0x34B0BCB5, 0x391C0CB3, 0x4ED8AA4A, 0x5B9CCA4F, 0x682E6FF3,
    0x748F82EE, 0x78A5636F, 0x84C87814, 0x8CC70208, 0x90BEFFFA, 0xA4506CEB, 0xBEF9A3F7, 0xC67178F2]"

type_synonym hstate = "u32 \<times> u32 \<times> u32 \<times> u32 \<times> u32 \<times> u32 \<times> u32 \<times> u32"

definition H0 :: hstate where
  "H0 = (0x6A09E667, 0xBB67AE85, 0x3C6EF372, 0xA54FF53A,
         0x510E527F, 0x9B05688C, 0x1F83D9AB, 0x5BE0CD19)"

definition bytes_be :: "nat \<Rightarrow> nat \<Rightarrow> byte list" where
  "bytes_be k n = map (\<lambda>i. of_nat (n div 256 ^ (k - 1 - i))) [0..<k]"

definition be32 :: "byte list \<Rightarrow> u32" where
  "be32 bs = foldl (\<lambda>acc b. push_bit 8 acc OR ucast b) 0 bs"

definition pad :: "byte list \<Rightarrow> byte list" where
  "pad bs = bs @ [0x80] @ replicate ((64 - (length bs + 9) mod 64) mod 64) 0
               @ bytes_be 8 (8 * length bs)"

definition blocks :: "byte list \<Rightarrow> byte list list" where
  "blocks p = map (\<lambda>i. take 64 (drop (64 * i) p)) [0..<length p div 64]"

definition words_of_block :: "byte list \<Rightarrow> u32 list" where
  "words_of_block b = map (\<lambda>i. be32 (take 4 (drop (4 * i) b))) [0..<16]"

definition schedule_step :: "u32 list \<Rightarrow> nat \<Rightarrow> u32 list" where
  "schedule_step w t =
     w @ [sigma1 (w ! (t - 2)) + w ! (t - 7) + sigma0 (w ! (t - 15)) + w ! (t - 16)]"

definition schedule :: "u32 list \<Rightarrow> u32 list" where
  "schedule m = foldl schedule_step m [16..<64]"

fun round :: "hstate \<Rightarrow> u32 \<times> u32 \<Rightarrow> hstate" where
  "round (a, b, c, d, e, f, g, h) (k, w) =
     (let t1 = h + Sigma1 e + Ch e f g + k + w;
          t2 = Sigma0 a + Maj a b c
      in (t1 + t2, a, b, c, d + t1, e, f, g))"

fun add_state :: "hstate \<Rightarrow> hstate \<Rightarrow> hstate" where
  "add_state (a, b, c, d, e, f, g, h) (a', b', c', d', e', f', g', h') =
     (a + a', b + b', c + c', d + d', e + e', f + f', g + g', h + h')"

definition compress :: "hstate \<Rightarrow> byte list \<Rightarrow> hstate" where
  "compress hs blk =
     add_state hs (foldl round hs (zip K256 (schedule (words_of_block blk))))"

fun state_bytes :: "hstate \<Rightarrow> byte list" where
  "state_bytes (a, b, c, d, e, f, g, h) =
     concat (map (\<lambda>w. bytes_be 4 (unat w)) [a, b, c, d, e, f, g, h])"

definition sha256 :: "byte list \<Rightarrow> byte list" where
  "sha256 bs = state_bytes (foldl compress H0 (blocks (pad bs)))"

subsection \<open>\<open>hashString\<close>\<close>

text \<open>
  \<open>byte.toString(16)\<close> writes a number in base 16 with the digits \<open>0\<close>--\<open>9\<close>, \<open>a\<close>--\<open>f\<close> and no
  leading zero; \<open>padStart(2, "0")\<close> puts zeros in front of a string shorter than two
  characters and leaves a longer one alone; \<open>join("")\<close> concatenates.
\<close>

definition hexdigit :: "nat \<Rightarrow> char" where
  "hexdigit d = ''0123456789abcdef'' ! d"

function toString16 :: "nat \<Rightarrow> string" where
  "toString16 n =
     (if n < 16 then [hexdigit n] else toString16 (n div 16) @ [hexdigit (n mod 16)])"
  by pat_completeness auto
termination
  by (relation "measure id") auto

declare toString16.simps [simp del]

definition padStart :: "nat \<Rightarrow> char \<Rightarrow> string \<Rightarrow> string" where
  "padStart targetLength c s = replicate (targetLength - length s) c @ s"

definition hashString :: "string \<Rightarrow> string" where
  "hashString input =
     (let buffer = TextEncoder_encode input;
          hashArray = sha256 buffer
      in concat (map (\<lambda>byte. padStart 2 CHR ''0'' (toString16 (unat byte))) hashArray))"


text \<open>The rendering in the words of the specification: two hexadecimal characters per byte.\<close>

definition hex_of_byte :: "byte \<Rightarrow> string" where
  "hex_of_byte b = [hexdigit (unat b div 16), hexdigit (unat b mod 16)]"

definition spec_hash :: "string \<Rightarrow> string" where
  "spec_hash pin = concat (map hex_of_byte (sha256 (TextEncoder_encode pin)))"

subsection \<open>Two test vectors\<close>

text \<open>
  The intermediate values of SHA-256 on the six-byte messages \<open>123456\<close> and \<open>654321\<close>: the
  message bytes, the padded block, its sixteen words and the expanded schedule. They are used
  below to evaluate \<^term>\<open>hashString\<close> step by step on these two PINs.
\<close>

definition pin123456_bytes :: "byte list" where
  "pin123456_bytes = [49, 50, 51, 52, 53, 54]"

definition pin123456_block :: "byte list" where
  "pin123456_block =
    [49, 50, 51, 52, 53, 54, 128, 0, 0, 0, 0, 0, 0, 0, 0, 0,
    0, 0, 0, 0, 0, 0, 0, 0, 0, 0, 0, 0, 0, 0, 0, 0,
    0, 0, 0, 0, 0, 0, 0, 0, 0, 0, 0, 0, 0, 0, 0, 0,
    0, 0, 0, 0, 0, 0, 0, 0, 0, 0, 0, 0, 0, 0, 0, 48]"

definition pin123456_words :: "u32 list" where
  "pin123456_words =
    [0x31323334, 0x35368000, 0x00000000, 0x00000000, 0x00000000, 0x00000000, 0x00000000, 0x00000000,
    0x00000000, 0x00000000, 0x00000000, 0x00000000, 0x00000000, 0x00000000, 0x00000000, 0x00000030]"

definition pin123456_schedule :: "u32 list" where
  "pin123456_schedule =
    [0x31323334, 0x35368000, 0x00000000, 0x00000000, 0x00000000, 0x00000000, 0x00000000, 0x00000000,
    0x00000000, 0x00000000, 0x00000000, 0x00000000, 0x00000000, 0x00000000, 0x00000000, 0x00000030,
    0xD7FEE381, 0x35548000, 0xAD852EB8, 0xD00D4920, 0x32A02239, 0x0D807155, 0x1557173C, 0x0E822AED,
    0x9ED15DC4, 0xFDADB4D3, 0x558AB205, 0x9F6D0C47, 0x1CD7D42D, 0x3CE3FE54, 0x7F2242F7, 0xC171534E,
    0x65A7658E, 0x3E239BB2, 0xB54B5A72, 0x2844F62B, 0xEDDCCD0F, 0x31CCDDFF, 0x275BE998, 0x370C4D1A,
    0x3C65CDCA, 0x0EB7C3FF, 0xBCE58548, 0x5375B6EB, 0x1137D9C9, 0x43A3D9B8, 0x9F87EFEF, 0x5EEF1D7E,
    0x03E1C31E, 0x8D6FD10F, 0x51802891, 0x7D26182E, 0x11F55838, 0x6F2649D5, 0xAF339BA2, 0x0940E158,
    0x9798C1C7, 0xB47496DA, 0x647D05F2, 0xA57CF17B, 0x3159B1FA, 0x10C7844A, 0xC7D68460, 0x75ECD5FC]"

definition pin654321_bytes :: "byte list" where
  "pin654321_bytes = [54, 53, 52, 51, 50, 49]"

definition pin654321_block :: "byte list" where
  "pin654321_block =
    [54, 53, 52, 51, 50, 49, 128, 0, 0, 0, 0, 0, 0, 0, 0, 0,
    0, 0, 0, 0, 0, 0, 0, 0, 0, 0, 0, 0, 0, 0, 0, 0,
    0, 0, 0, 0, 0, 0, 0, 0, 0, 0, 0, 0, 0, 0, 0, 0,
    0, 0, 0, 0, 0, 0, 0, 0, 0, 0, 0, 0, 0, 0, 0, 48]"

definition pin654321_words :: "u32 list" where
  "pin654321_words =
    [0x36353433, 0x32318000, 0x00000000, 0x00000000, 0x00000000, 0x00000000, 0x00000000, 0x00000000,
    0x00000000, 0x00000000, 0x00000000, 0x00000000, 0x00000000, 0x00000000, 0x00000000, 0x00000030]"

definition pin654321_schedule :: "u32 list" where
  "pin654321_schedule =
    [0x36353433, 0x32318000, 0x00000000, 0x00000000, 0x00000000, 0x00000000, 0x00000000, 0x00000000,
    0x00000000, 0x00000000, 0x00000000, 0x00000000, 0x00000000, 0x00000000, 0x00000000, 0x00000030,
    0x9C5793BF, 0x324F8000, 0x3B8F2845, 0x300C8C8E, 0x7124D97C, 0xD7DADD24, 0xF78DFFB0, 0xD15A9B60,
    0x72630648, 0x5A774C65, 0x13FE3C4A, 0xC0CD7522, 0xB1839133, 0x0B930AD2, 0xEBFA697B, 0xDEF26136,
    0x56A4B9CF, 0x09EF7A44, 0x016A8A9A, 0xF492EAA9, 0x74F3DA70, 0xED04C0EA, 0xEA3D3B03, 0x7F8D799E,
    0xCA10D92C, 0x890FA976, 0x80E323EC, 0xEC98BF42, 0xFC06006D, 0xAF3896C8, 0x19BA4274, 0xBCA3D2A3,
    0xA0E67886, 0xB486237D, 0xD9500D71, 0xDF80BA37, 0x238D1F96, 0xA57D1F15, 0x407B6EB9, 0xC352338D,
    0x6FA0DBD1, 0xC3CDC638, 0x8E87EDE5, 0xB0751CD2, 0x4DFC3F24, 0x992C5398, 0x19B81928, 0x575A6EF3]"

section \<open>indexedDBService.js\<close>

subsection \<open>Records, state and environment\<close>

text \<open>
  A record of the object store \<open>blockedAuthors\<close> (key path \<open>id\<close>, auto-increment) and a record
  of the object store \<open>settings\<close> (key path \<open>id\<close>). The fields carry the store's name in front
  because \<open>id\<close>, \<open>type\<close> and \<open>value\<close> are taken in Isabelle.
\<close>

record author =
  author_id :: nat
  author_name :: string

record setting =
  setting_id :: string
  setting_type :: string
  setting_value :: string

text \<open>
  A key handed to \<open>IDBObjectStore.delete\<close>. The generated keys of \<open>blockedAuthors\<close> are the
  numbers 1, 2, 3, ...; a key of any other kind (a string here; dates, binary keys and arrays
  behave alike) is a valid key that equals none of them.
\<close>

datatype idb_key = NumKey int | StrKey string

text \<open>
  The state of one page of the extension together with the database it shares with the others:
  \<^item> \<open>db\<close> is the module variable \<open>let db\<close>: \<open>None\<close> while it is \<open>undefined\<close>, the connection
    once it is assigned. A connection is named by the number of the open request it came from.
  \<^item> \<open>opens\<close> counts the calls of \<open>indexedDB.open\<close> made so far.
  \<^item> \<open>blockedAuthors\<close> holds the records of that object store in key order, the order in
    which a cursor and \<open>getAll\<close> deliver them; \<open>keygen\<close> is the current number of its key
    generator, which \<open>delete\<close> and \<open>clear\<close> do not reset.
  \<^item> \<open>settings\<close> maps a key to the record stored under it.
  \<^item> \<open>alerts\<close> lists the messages shown by \<open>alert\<close>.
  Both object stores exist in every state: a successful open of version 2 has run
  \<open>onupgradeneeded\<close> on a database that lacked them, and it creates whichever is missing.
\<close>

record state =
  db :: "nat option"
  opens :: nat
  blockedAuthors :: "author list"
  keygen :: nat
  settings :: "string \<rightharpoonup> setting"
  alerts :: "string list"

definition init :: state where
  "init = \<lparr>db = None, opens = 0, blockedAuthors = [], keygen = 1,
            settings = Map.empty, alerts = []\<rparr>"

text \<open>
  What the browser does to the requests of one call is a parameter of the call. \<open>fails r\<close>
  says that the request \<open>r\<close> fires \<open>onerror\<close> instead of \<open>onsuccess\<close>; \<open>upgrade\<close> says that
  \<open>indexedDB.open\<close> fires \<open>onupgradeneeded\<close> first (an open that upgrades is taken to succeed);
  \<open>cursor_error_at\<close> is \<open>Some k\<close> when the cursor request fails after delivering \<open>k\<close> records
  and \<open>None\<close> when it never fails.
\<close>

datatype request = Open | Get | Put | Add | Delete | GetAll | Clear

record env =
  fails :: "request \<Rightarrow> bool"
  upgrade :: bool
  cursor_error_at :: "nat option"

definition ok_env :: env where
  "ok_env = \<lparr>fails = (\<lambda>r. False), upgrade = False, cursor_error_at = None\<rparr>"

text \<open>
  A promise, once the call has run its course: resolved with a value, rejected with an error,
  or never settled. The errors are the string passed to \<open>reject\<close> by \<open>openDatabase\<close>, the
  \<open>error\<close> of a failed request, and \<open>new Error("Old PIN is incorrect.")\<close>.
\<close>

datatype error = OpenError | RequestError request | OldPINIncorrect

datatype 'a promise = Resolved 'a | Rejected error | Pending

subsection \<open>\<open>openDatabase\<close>\<close>

text \<open>
  The executor of the promise runs at once: it resolves with \<open>db\<close> when \<open>db\<close> is set and calls
  \<open>indexedDB.open\<close> otherwise. The three handlers run later, when the browser fires the event
  of that request.
\<close>

datatype open_step = Immediate nat | Requested nat

definition openDatabase_executor :: "state \<Rightarrow> open_step \<times> state" where
  "openDatabase_executor s =
     (case db s of
        Some h \<Rightarrow> (Immediate h, s)
      | None \<Rightarrow> (Requested (opens s), s\<lparr>opens := Suc (opens s)\<rparr>))"

definition onupgradeneeded :: "nat \<Rightarrow> state \<Rightarrow> state" where
  "onupgradeneeded r s = s\<lparr>db := Some r\<rparr>"

definition onsuccess :: "nat \<Rightarrow> state \<Rightarrow> nat promise \<times> state" where
  "onsuccess r s = (Resolved r, s\<lparr>db := Some r\<rparr>)"

definition onerror :: "nat \<Rightarrow> state \<Rightarrow> nat promise \<times> state" where
  "onerror r s = (Rejected OpenError, s)"

text \<open>
  A call that is awaited before anything else runs: the executor, then the events. A connection
  found in \<open>db\<close> is taken to be open and past its upgrade. The code also assigns \<open>db\<close> in
  \<open>onupgradeneeded\<close> and never clears it, so a call can find a connection whose open has not
  completed or has failed; \<open>db.transaction\<close> then throws. The functions below do not describe
  such a call.
\<close>

definition openDatabase :: "env \<Rightarrow> state \<Rightarrow> nat promise \<times> state" where
  "openDatabase e s =
     (case openDatabase_executor s of
        (Immediate h, s') \<Rightarrow> (Resolved h, s')
      | (Requested r, s') \<Rightarrow>
          if fails e Open then onerror r s'
          else onsuccess r (if upgrade e then onupgradeneeded r s' else s'))"

subsection \<open>Authors\<close>

text \<open>
  The cursor walk of \<open>authorExists\<close>. The promise has no \<open>onerror\<close> handler and no \<open>reject\<close>:
  when the cursor request fails the promise is never settled.
\<close>

fun cursor_walk :: "nat option \<Rightarrow> string \<Rightarrow> author list \<Rightarrow> bool promise" where
  "cursor_walk err lowercasedName [] =
     (if err = Some 0 then Pending else Resolved False)"
| "cursor_walk err lowercasedName (a # as) =
     (if err = Some 0 then Pending
      else if toLowerCase (author_name a) = lowercasedName then Resolved True
      else cursor_walk (map_option (\<lambda>k. k - 1) err) lowercasedName as)"

definition authorExists :: "env \<Rightarrow> string \<Rightarrow> state \<Rightarrow> bool promise \<times> state" where
  "authorExists e authorName s =
     (case openDatabase e s of
        (Resolved h, s') \<Rightarrow>
          (cursor_walk (cursor_error_at e) (toLowerCase authorName) (blockedAuthors s'), s')
      | (Rejected err, s') \<Rightarrow> (Rejected err, s')
      | (Pending, s') \<Rightarrow> (Pending, s'))"

text \<open>\<open>addAuthor\<close> resolves with \<open>undefined\<close> (\<open>None\<close>) or with the key of the new record.\<close>

definition addAuthor :: "env \<Rightarrow> string \<Rightarrow> state \<Rightarrow> nat option promise \<times> state" where
  "addAuthor e authorName s =
     (case authorExists e authorName s of
        (Resolved True, s1) \<Rightarrow>
          (Resolved None, s1\<lparr>alerts := alerts s1 @ [''Author already exists: '' @ authorName]\<rparr>)
      | (Resolved False, s1) \<Rightarrow>
          (case openDatabase e s1 of
             (Resolved h, s2) \<Rightarrow>
               if fails e Add then (Rejected (RequestError Add), s2)
               else (Resolved (Some (keygen s2)),
                     s2\<lparr>blockedAuthors := blockedAuthors s2 @
                           [\<lparr>author_id = keygen s2, author_name = toLowerCase authorName\<rparr>],
                        keygen := Suc (keygen s2)\<rparr>)
           | (Rejected err, s2) \<Rightarrow> (Rejected err, s2)
           | (Pending, s2) \<Rightarrow> (Pending, s2))
      | (Rejected err, s1) \<Rightarrow> (Rejected err, s1)
      | (Pending, s1) \<Rightarrow> (Pending, s1))"

definition deleteAuthor :: "env \<Rightarrow> idb_key \<Rightarrow> state \<Rightarrow> unit promise \<times> state" where
  "deleteAuthor e id' s =
     (case openDatabase e s of
        (Resolved h, s') \<Rightarrow>
          if fails e Delete then (Rejected (RequestError Delete), s')
          else (Resolved (),
                s'\<lparr>blockedAuthors :=
                      filter (\<lambda>a. NumKey (int (author_id a)) \<noteq> id') (blockedAuthors s')\<rparr>)
      | (Rejected err, s') \<Rightarrow> (Rejected err, s')
      | (Pending, s') \<Rightarrow> (Pending, s'))"

definition getAuthors :: "env \<Rightarrow> state \<Rightarrow> author list promise \<times> state" where
  "getAuthors e s =
     (case openDatabase e s of
        (Resolved h, s') \<Rightarrow>
          if fails e GetAll then (Rejected (RequestError GetAll), s')
          else (Resolved (blockedAuthors s'), s')
      | (Rejected err, s') \<Rightarrow> (Rejected err, s')
      | (Pending, s') \<Rightarrow> (Pending, s'))"

definition clearAuthors :: "env \<Rightarrow> state \<Rightarrow> unit promise \<times> state" where
  "clearAuthors e s =
     (case openDatabase e s of
        (Resolved h, s') \<Rightarrow>
          if fails e Clear then (Rejected (RequestError Clear), s')
          else (Resolved (), s'\<lparr>blockedAuthors := []\<rparr>)
      | (Rejected err, s') \<Rightarrow> (Rejected err, s')
      | (Pending, s') \<Rightarrow> (Pending, s'))"

subsection \<open>The PIN\<close>

definition pin_record :: "string \<Rightarrow> setting" where
  "pin_record hashedPIN =
     \<lparr>setting_id = ''pin'', setting_type = ''pin'', setting_value = hashedPIN\<rparr>"

definition setPIN :: "env \<Rightarrow> string \<Rightarrow> state \<Rightarrow> unit promise \<times> state" where
  "setPIN e pin s =
     (let hashedPIN = hashString pin
      in case openDatabase e s of
           (Resolved h, s') \<Rightarrow>
             if fails e Put then (Rejected (RequestError Put), s')
             else (Resolved (), s'\<lparr>settings := (settings s')(''pin'' \<mapsto> pin_record hashedPIN)\<rparr>)
         | (Rejected err, s') \<Rightarrow> (Rejected err, s')
         | (Pending, s') \<Rightarrow> (Pending, s'))"

text \<open>
  \<open>request.result\<close> is the stored record or \<open>undefined\<close>; a record is an object and so truthy.
\<close>

definition verifyPIN :: "env \<Rightarrow> string \<Rightarrow> state \<Rightarrow> bool promise \<times> state" where
  "verifyPIN e pin s =
     (case openDatabase e s of
        (Resolved h, s') \<Rightarrow>
          if fails e Get then (Resolved False, s')
          else (case settings s' ''pin'' of
                  Some result \<Rightarrow>
                    (let hashedPIN = setting_value result;
                         inputPINHashed = hashString pin
                     in (Resolved (hashedPIN = inputPINHashed), s'))
                | None \<Rightarrow> (Resolved False, s'))
      | (Rejected err, s') \<Rightarrow> (Rejected err, s')
      | (Pending, s') \<Rightarrow> (Pending, s'))"

definition updatePIN :: "env \<Rightarrow> string \<Rightarrow> string \<Rightarrow> state \<Rightarrow> unit promise \<times> state" where
  "updatePIN e oldPIN newPIN s =
     (let newHashedPIN = hashString newPIN
      in case verifyPIN e oldPIN s of
           (Resolved isOldPINVerified, s1) \<Rightarrow>
             if \<not> isOldPINVerified then (Rejected OldPINIncorrect, s1)
             else (case openDatabase e s1 of
                     (Resolved h, s2) \<Rightarrow>
                       if fails e Put then (Rejected (RequestError Put), s2)
                       else (Resolved (),
                             s2\<lparr>settings := (settings s2)(''pin'' \<mapsto> pin_record newHashedPIN)\<rparr>)
                   | (Rejected err, s2) \<Rightarrow> (Rejected err, s2)
                   | (Pending, s2) \<Rightarrow> (Pending, s2))
         | (Rejected err, s1) \<Rightarrow> (Rejected err, s1)
         | (Pending, s1) \<Rightarrow> (Pending, s1))"

definition isPINSet :: "env \<Rightarrow> state \<Rightarrow> bool promise \<times> state" where
  "isPINSet e s =
     (case openDatabase e s of
        (Resolved h, s') \<Rightarrow>
          if fails e Get then (Resolved False, s')
          else (case settings s' ''pin'' of
                  Some result \<Rightarrow> (Resolved True, s')
                | None \<Rightarrow> (Resolved False, s'))
      | (Rejected err, s') \<Rightarrow> (Rejected err, s')
      | (Pending, s') \<Rightarrow> (Pending, s'))"

subsection \<open>Sequences of calls\<close>

text \<open>
  The exported functions as a datatype, each call with the environment it runs in, and the
  state after a list of calls made one after the other, each awaited before the next.
\<close>

datatype call =
    AddAuthor string
  | DeleteAuthor idb_key
  | GetAuthors
  | ClearAuthors
  | SetPIN string
  | VerifyPIN string
  | UpdatePIN string string
  | IsPINSet

fun exec :: "env \<times> call \<Rightarrow> state \<Rightarrow> state" where
  "exec (e, AddAuthor n) s = snd (addAuthor e n s)"
| "exec (e, DeleteAuthor k) s = snd (deleteAuthor e k s)"
| "exec (e, GetAuthors) s = snd (getAuthors e s)"
| "exec (e, ClearAuthors) s = snd (clearAuthors e s)"
| "exec (e, SetPIN p) s = snd (setPIN e p s)"
| "exec (e, VerifyPIN p) s = snd (verifyPIN e p s)"
| "exec (e, UpdatePIN p q) s = snd (updatePIN e p q s)"
| "exec (e, IsPINSet) s = snd (isPINSet e s)"

fun run :: "(env \<times> call) list \<Rightarrow> state \<Rightarrow> state" where
  "run [] s = s"
| "run (c # cs) s = run cs (exec c s)"

text \<open>Whether a call is a \<open>setPIN\<close> that resolves, and whether a list of calls has none.\<close>

fun setPIN_resolves :: "env \<times> call \<Rightarrow> state \<Rightarrow> bool" where
  "setPIN_resolves (e, SetPIN p) s = (fst (setPIN e p s) = Resolved ())"
| "setPIN_resolves (e, _) s = False"

fun no_setPIN_resolves :: "(env \<times> call) list \<Rightarrow> state \<Rightarrow> bool" where
  "no_setPIN_resolves [] s = True"
| "no_setPIN_resolves (c # cs) s =
     (\<not> setPIN_resolves c s \<and> no_setPIN_resolves cs (exec c s))"

section \<open>background.js\<close>

text \<open>
  The service worker carries its own copies of \<open>db\<close>, \<open>openDatabase\<close> and \<open>getAuthors\<close>, word for
  word those of \<open>indexedDBService.js\<close>, so the definitions above serve for both. The listener
  answers through \<open>sendResponse\<close>; the model returns what was sent (\<open>None\<close> when nothing was) and
  the listener's return value (\<open>True\<close> keeps the channel open, \<open>False\<close> stands for \<open>undefined\<close>).
  The \<open>console.error\<close> of the \<open>catch\<close> branch changes neither the state nor the response and is
  left out.
\<close>

record message =
  action :: string

record response =
  authors :: "author list"

definition onMessage_listener ::
  "env \<Rightarrow> 'a message_scheme \<Rightarrow> state \<Rightarrow> response option \<times> bool \<times> state" where
  "onMessage_listener e msg s =
     (if action msg = ''fetchBlockedAuthors'' then
        (case getAuthors e s of
           (Resolved as, s') \<Rightarrow> (Some \<lparr>authors = as\<rparr>, True, s')
         | (Rejected err, s') \<Rightarrow> (Some \<lparr>authors = []\<rparr>, True, s')
         | (Pending, s') \<Rightarrow> (None, True, s'))
      else (None, False, s))"

section \<open>Environments and invariants used in the statements\<close>



definition getAll_fails_env :: env where
  "getAll_fails_env = ok_env\<lparr>fails := (fails ok_env)(GetAll := True)\<rparr>"


text \<open>
  What holds of \<open>blockedAuthors\<close> in every state reached from \<^term>\<open>init\<close>: the keys are distinct
  and below the key generator, every name is stored in lower case, and no two names agree in
  lower case.
\<close>

definition store_inv :: "state \<Rightarrow> bool" where
  "store_inv s =
     (distinct (map author_id (blockedAuthors s))
      \<and> (\<forall>a \<in> set (blockedAuthors s).
            author_id a < keygen s \<and> toLowerCase (author_name a) = author_name a)
      \<and> distinct (map (\<lambda>a. toLowerCase (author_name a)) (blockedAuthors s)))"

section \<open>Properties of \<open>hashString\<close>\<close>

lemma utf8_e_acute: "TextEncoder_encode [CHR 0xE9] = [0xC3, 0xA9]"
  by (simp add: TextEncoder_encode_def utf8_unit_def)

lemma length_bytes_be: "length (bytes_be k n) = k"
  by (simp add: bytes_be_def)

lemma length_state_bytes: "length (state_bytes hs) = 32"
  by (induction hs rule: state_bytes.induct) (simp add: length_bytes_be)

lemma length_sha256: "length (sha256 bs) = 32"
  by (simp add: sha256_def length_state_bytes)

lemma hexdigit_lower: "d < 16 \<Longrightarrow> hexdigit d \<in> set ''0123456789abcdef''"
  unfolding hexdigit_def by (rule nth_mem) simp

lemma unat_byte_less: "unat (b :: byte) < 256"
  using unsigned_less [of b, where ?'a = nat] by simp

lemma padStart_toString16: "n < 256 \<Longrightarrow>
    padStart 2 CHR ''0'' (toString16 n) = [hexdigit (n div 16), hexdigit (n mod 16)]"
proof (cases "n < 16")
  case True
  then show ?thesis
    by (simp add: toString16.simps [of n] padStart_def hexdigit_def)
next
  case False
  assume "n < 256"
  then have "n div 16 < 16" by simp
  with False show ?thesis
    by (simp add: toString16.simps [of n] toString16.simps [of "n div 16"] padStart_def)
qed

lemma render_byte: "padStart 2 CHR ''0'' (toString16 (unat (b :: byte))) = hex_of_byte b"
  by (simp add: padStart_toString16 unat_byte_less hex_of_byte_def)

lemma hex_of_byte_lower: "set (hex_of_byte b) \<subseteq> set ''0123456789abcdef''"
proof -
  have "unat b div 16 < 16" using unat_byte_less [of b] by simp
  moreover have "unat b mod 16 < 16" by simp
  ultimately show ?thesis
    unfolding hex_of_byte_def using hexdigit_lower by (metis empty_subsetI insert_subset list.simps(15) set_empty)
qed

lemma length_concat_hex: "length (concat (map hex_of_byte bs)) = 2 * length bs"
  by (induction bs) (simp_all add: hex_of_byte_def)

lemma hashString_eq_spec: "hashString input = spec_hash input"
  by (simp add: hashString_def spec_hash_def render_byte)

text \<open>
  C6. For every input string, \<open>hashString\<close> is a function of its argument alone (it reads and
  writes no state) and equals the SHA-256 digest of the UTF-8 bytes of the string, rendered
  with two hexadecimal characters per byte: 64 characters, all from \<open>0123456789abcdef\<close>.
\<close>

theorem hashString_sha256_hex:
  "hashString input = concat (map hex_of_byte (sha256 (TextEncoder_encode input)))
   \<and> length (hashString input) = 64
   \<and> set (hashString input) \<subseteq> set ''0123456789abcdef''"
proof -
  have eq: "hashString input = concat (map hex_of_byte (sha256 (TextEncoder_encode input)))"
    using hashString_eq_spec by (simp add: spec_hash_def)
  have len: "length (hashString input) = 64"
    by (simp add: eq length_concat_hex length_sha256)
  have low: "set (hashString input) \<subseteq> set ''0123456789abcdef''"
    unfolding eq using hex_of_byte_lower by (fastforce simp del: set_simps)
  from eq len low show ?thesis by blast
qed

subsection \<open>Evaluating \<open>hashString\<close> on the test vectors\<close>

text \<open>
  The digests below are the published SHA-256 values of \<open>123456\<close> and \<open>654321\<close>. Each stage of
  the computation is evaluated on its own; the 64 rounds are evaluated sixteen at a time.
\<close>

lemma upt_0_16: "[0..<16] = [0, 1, 2, 3, 4, 5, 6, 7, 8, 9, 10, 11, 12, 13, 14, 15]"
  by code_simp

lemma upt_0_8: "[0..<8] = [0, 1, 2, 3, 4, 5, 6, 7]"
  by code_simp

lemma upt_0_4: "[0..<4] = [0, 1, 2, 3]"
  by code_simp

lemma upt_0_1: "[0..<1] = [0]"
  by code_simp

lemma replicate_zeros:
  "replicate 49 (0::byte) =
     [0, 0, 0, 0, 0, 0, 0, 0, 0, 0, 0, 0, 0, 0, 0, 0, 0, 0, 0, 0, 0, 0, 0, 0, 0,
      0, 0, 0, 0, 0, 0, 0, 0, 0, 0, 0, 0, 0, 0, 0, 0, 0, 0, 0, 0, 0, 0, 0, 0]"
  by code_simp

lemma pin123456_encode: "TextEncoder_encode ''123456'' = pin123456_bytes"
  by (simp add: TextEncoder_encode_def utf8_unit_def pin123456_bytes_def)

lemma pin123456_pad: "pad pin123456_bytes = pin123456_block"
  by (simp add: pad_def bytes_be_def upt_0_8 replicate_zeros pin123456_bytes_def pin123456_block_def)

lemma pin123456_blocks: "blocks pin123456_block = [pin123456_block]"
  by (simp add: blocks_def upt_0_1 pin123456_block_def)

lemma pin123456_words_of_block: "words_of_block pin123456_block = pin123456_words"
  by (simp add: words_of_block_def be32_def upt_0_16 pin123456_block_def pin123456_words_def)

lemma pin123456_schedule_eq: "schedule pin123456_words = pin123456_schedule"
  by (simp add: schedule_def schedule_step_def sigma0_def sigma1_def rotr_def
        pin123456_words_def pin123456_schedule_def)

lemma pin123456_rounds_0:
  "foldl round (0x6A09E667, 0xBB67AE85, 0x3C6EF372, 0xA54FF53A, 0x510E527F, 0x9B05688C, 0x1F83D9AB, 0x5BE0CD19)
     [(0x428A2F98, 0x31323334), (0x71374491, 0x35368000), (0xB5C0FBCF, 0x00000000), (0xE9B5DBA5, 0x00000000),
     (0x3956C25B, 0x00000000), (0x59F111F1, 0x00000000), (0x923F82A4, 0x00000000), (0xAB1C5ED5, 0x00000000),
     (0xD807AA98, 0x00000000), (0x12835B01, 0x00000000), (0x243185BE, 0x00000000), (0x550C7DC3, 0x00000000),
     (0x72BE5D74, 0x00000000), (0x80DEB1FE, 0x00000000), (0x9BDC06A7, 0x00000000), (0xC19BF174, 0x00000030)]
   = (0x1B367516, 0xBB7A36DD, 0x9F530599, 0x2562B30A, 0x110551D0, 0x8862D2D6, 0xD04D0BB7, 0x9597543F)"
  by (simp add: Sigma0_def Sigma1_def Ch_def Maj_def rotr_def)

lemma pin123456_rounds_1:
  "foldl round (0x1B367516, 0xBB7A36DD, 0x9F530599, 0x2562B30A, 0x110551D0, 0x8862D2D6, 0xD04D0BB7, 0x9597543F)
     [(0xE49B69C1, 0xD7FEE381), (0xEFBE4786, 0x35548000), (0x0FC19DC6, 0xAD852EB8), (0x240CA1CC, 0xD00D4920),
     (0x2DE92C6F, 0x32A02239), (0x4A7484AA, 0x0D807155), (0x5CB0A9DC, 0x1557173C), (0x76F988DA, 0x0E822AED),
     (0x983E5152, 0x9ED15DC4), (0xA831C66D, 0xFDADB4D3), (0xB00327C8, 0x558AB205), (0xBF597FC7, 0x9F6D0C47),
     (0xC6E00BF3, 0x1CD7D42D), (0xD5A79147, 0x3CE3FE54), (0x06CA6351, 0x7F2242F7), (0x14292967, 0xC171534E)]
   = (0x347730E3, 0x2B24EA7C, 0xD91A4D2D, 0xE0EBF395, 0xB76E91AC, 0xCBB667E9, 0xE5AC2328, 0x046E7902)"
  by (simp add: Sigma0_def Sigma1_def Ch_def Maj_def rotr_def)

lemma pin123456_rounds_2:
  "foldl round (0x347730E3, 0x2B24EA7C, 0xD91A4D2D, 0xE0EBF395, 0xB76E91AC, 0xCBB667E9, 0xE5AC2328, 0x046E7902)
     [(0x27B70A85, 0x65A7658E), (0x2E1B2138, 0x3E239BB2), (0x4D2C6DFC, 0xB54B5A72), (0x53380D13, 0x2844F62B),
     (0x650A7354, 0xEDDCCD0F), (0x766A0ABB, 0x31CCDDFF), (0x81C2C92E, 0x275BE998), (0x92722C85, 0x370C4D1A),
     (0xA2BFE8A1, 0x3C65CDCA), (0xA81A664B, 0x0EB7C3FF), (0xC24B8B70, 0xBCE58548), (0xC76C51A3, 0x5375B6EB),
     (0xD192E819, 0x1137D9C9), (0xD6990624, 0x43A3D9B8), (0xF40E3585, 0x9F87EFEF), (0x106AA070, 0x5EEF1D7E)]
   = (0xB6836CC3, 0xB4157AB5, 0xD7CAD933, 0x6E6F8615, 0x46B49C71, 0x2D75E897, 0x5732A855, 0x340BE9AF)"
  by (simp add: Sigma0_def Sigma1_def Ch_def Maj_def rotr_def)

lemma pin123456_rounds_3:
  "foldl round (0xB6836CC3, 0xB4157AB5, 0xD7CAD933, 0x6E6F8615, 0x46B49C71, 0x2D75E897, 0x5732A855, 0x340BE9AF)
     [(0x19A4C116, 0x03E1C31E), (0x1E376C08, 0x8D6FD10F), (0x2748774C, 0x51802891), (0x34B0BCB5, 0x7D26182E),
     (0x391C0CB3, 0x11F55838), (0x4ED8AA4A, 0x6F2649D5), (0x5B9CCA4F, 0xAF339BA2), (0x682E6FF3, 0x0940E158),
     (0x748F82EE, 0x9798C1C7), (0x78A5636F, 0xB47496DA), (0x84C87814, 0x647D05F2), (0x8CC70208, 0xA57CF17B),
     (0x90BEFFFA, 0x3159B1FA), (0xA4506CEB, 0x10C7844A), (0xBEF9A3F7, 0xC7D68460), (0xC67178F2, 0x75ECD5FC)]
   = (0x238CB888, 0xB363253D, 0x5DCB6F20, 0xDB969195, 0xBB310ADB, 0xEBAA8B3E, 0xF27E32E7, 0xDEFB9F79)"
  by (simp add: Sigma0_def Sigma1_def Ch_def Maj_def rotr_def)

lemma pin123456_zip:
  "zip K256 pin123456_schedule =
     [(0x428A2F98, 0x31323334), (0x71374491, 0x35368000), (0xB5C0FBCF, 0x00000000), (0xE9B5DBA5, 0x00000000),
     (0x3956C25B, 0x00000000), (0x59F111F1, 0x00000000), (0x923F82A4, 0x00000000), (0xAB1C5ED5, 0x00000000),
     (0xD807AA98, 0x00000000), (0x12835B01, 0x00000000), (0x243185BE, 0x00000000), (0x550C7DC3, 0x00000000),
     (0x72BE5D74, 0x00000000), (0x80DEB1FE, 0x00000000), (0x9BDC06A7, 0x00000000), (0xC19BF174, 0x00000030)]
   @ [(0xE49B69C1, 0xD7FEE381), (0xEFBE4786, 0x35548000), (0x0FC19DC6, 0xAD852EB8), (0x240CA1CC, 0xD00D4920),
     (0x2DE92C6F, 0x32A02239), (0x4A7484AA, 0x0D807155), (0x5CB0A9DC, 0x1557173C), (0x76F988DA, 0x0E822AED),
     (0x983E5152, 0x9ED15DC4), (0xA831C66D, 0xFDADB4D3), (0xB00327C8, 0x558AB205), (0xBF597FC7, 0x9F6D0C47),
     (0xC6E00BF3, 0x1CD7D42D), (0xD5A79147, 0x3CE3FE54), (0x06CA6351, 0x7F2242F7), (0x14292967, 0xC171534E)]
   @ [(0x27B70A85, 0x65A7658E), (0x2E1B2138, 0x3E239BB2), (0x4D2C6DFC, 0xB54B5A72), (0x53380D13, 0x2844F62B),
     (0x650A7354, 0xEDDCCD0F), (0x766A0ABB, 0x31CCDDFF), (0x81C2C92E, 0x275BE998), (0x92722C85, 0x370C4D1A),
     (0xA2BFE8A1, 0x3C65CDCA), (0xA81A664B, 0x0EB7C3FF), (0xC24B8B70, 0xBCE58548), (0xC76C51A3, 0x5375B6EB),
     (0xD192E819, 0x1137D9C9), (0xD6990624, 0x43A3D9B8), (0xF40E3585, 0x9F87EFEF), (0x106AA070, 0x5EEF1D7E)]
   @ [(0x19A4C116, 0x03E1C31E), (0x1E376C08, 0x8D6FD10F), (0x2748774C, 0x51802891), (0x34B0BCB5, 0x7D26182E),
     (0x391C0CB3, 0x11F55838), (0x4ED8AA4A, 0x6F2649D5), (0x5B9CCA4F, 0xAF339BA2), (0x682E6FF3, 0x0940E158),
     (0x748F82EE, 0x9798C1C7), (0x78A5636F, 0xB47496DA), (0x84C87814, 0x647D05F2), (0x8CC70208, 0xA57CF17B),
     (0x90BEFFFA, 0x3159B1FA), (0xA4506CEB, 0x10C7844A), (0xBEF9A3F7, 0xC7D68460), (0xC67178F2, 0x75ECD5FC)]"
  by (simp add: K256_def pin123456_schedule_def)

lemma pin123456_compress:
  "compress H0 pin123456_block = (0x8D969EEF, 0x6ECAD3C2, 0x9A3A6292, 0x80E686CF, 0x0C3F5D5A, 0x86AFF3CA, 0x12020C92, 0x3ADC6C92)"
  unfolding compress_def pin123456_words_of_block pin123456_schedule_eq pin123456_zip foldl_append H0_def
    pin123456_rounds_0 pin123456_rounds_1 pin123456_rounds_2 pin123456_rounds_3
  by simp

lemma pin123456_sha256:
  "sha256 pin123456_bytes =
    [141, 150, 158, 239, 110, 202, 211, 194, 154, 58, 98, 146, 128, 230, 134, 207,
    12, 63, 93, 90, 134, 175, 243, 202, 18, 2, 12, 146, 58, 220, 108, 146]"
  by (simp add: sha256_def pin123456_pad pin123456_blocks pin123456_compress bytes_be_def upt_0_4)

lemma pin123456_digest:
  "hashString ''123456'' = ''8d969eef6ecad3c29a3a629280e686cf0c3f5d5a86aff3ca12020c923adc6c92''"
  by (simp add: hashString_eq_spec spec_hash_def pin123456_encode pin123456_sha256 hex_of_byte_def
        hexdigit_def)

lemma pin654321_encode: "TextEncoder_encode ''654321'' = pin654321_bytes"
  by (simp add: TextEncoder_encode_def utf8_unit_def pin654321_bytes_def)

lemma pin654321_pad: "pad pin654321_bytes = pin654321_block"
  by (simp add: pad_def bytes_be_def upt_0_8 replicate_zeros pin654321_bytes_def pin654321_block_def)

lemma pin654321_blocks: "blocks pin654321_block = [pin654321_block]"
  by (simp add: blocks_def upt_0_1 pin654321_block_def)

lemma pin654321_words_of_block: "words_of_block pin654321_block = pin654321_words"
  by (simp add: words_of_block_def be32_def upt_0_16 pin654321_block_def pin654321_words_def)

lemma pin654321_schedule_eq: "schedule pin654321_words = pin654321_schedule"
  by (simp add: schedule_def schedule_step_def sigma0_def sigma1_def rotr_def
        pin654321_words_def pin654321_schedule_def)

lemma pin654321_rounds_0:
  "foldl round (0x6A09E667, 0xBB67AE85, 0x3C6EF372, 0xA54FF53A, 0x510E527F, 0x9B05688C, 0x1F83D9AB, 0x5BE0CD19)
     [(0x428A2F98, 0x36353433), (0x71374491, 0x32318000), (0xB5C0FBCF, 0x00000000), (0xE9B5DBA5, 0x00000000),
     (0x3956C25B, 0x00000000), (0x59F111F1, 0x00000000), (0x923F82A4, 0x00000000), (0xAB1C5ED5, 0x00000000),
     (0xD807AA98, 0x00000000), (0x12835B01, 0x00000000), (0x243185BE, 0x00000000), (0x550C7DC3, 0x00000000),
     (0x72BE5D74, 0x00000000), (0x80DEB1FE, 0x00000000), (0x9BDC06A7, 0x00000000), (0xC19BF174, 0x00000030)]
   = (0xCE7FF641, 0xEF537561, 0x98E5B921, 0x4D37941E, 0x5C3D39EA, 0xA92692A7, 0x0152925C, 0xB4C7539A)"
  by (simp add: Sigma0_def Sigma1_def Ch_def Maj_def rotr_def)

lemma pin654321_rounds_1:
  "foldl round (0xCE7FF641, 0xEF537561, 0x98E5B921, 0x4D37941E, 0x5C3D39EA, 0xA92692A7, 0x0152925C, 0xB4C7539A)
     [(0xE49B69C1, 0x9C5793BF), (0xEFBE4786, 0x324F8000), (0x0FC19DC6, 0x3B8F2845), (0x240CA1CC, 0x300C8C8E),
     (0x2DE92C6F, 0x7124D97C), (0x4A7484AA, 0xD7DADD24), (0x5CB0A9DC, 0xF78DFFB0), (0x76F988DA, 0xD15A9B60),
     (0x983E5152, 0x72630648), (0xA831C66D, 0x5A774C65), (0xB00327C8, 0x13FE3C4A), (0xBF597FC7, 0xC0CD7522),
     (0xC6E00BF3, 0xB1839133), (0xD5A79147, 0x0B930AD2), (0x06CA6351, 0xEBFA697B), (0x14292967, 0xDEF26136)]
   = (0xD7475888, 0xD22E8CAB, 0x3E406988, 0xA46E948F, 0x02348D53, 0x5295B1D6, 0x67EE5CDC, 0x55035AE4)"
  by (simp add: Sigma0_def Sigma1_def Ch_def Maj_def rotr_def)

lemma pin654321_rounds_2:
  "foldl round (0xD7475888, 0xD22E8CAB, 0x3E406988, 0xA46E948F, 0x02348D53, 0x5295B1D6, 0x67EE5CDC, 0x55035AE4)
     [(0x27B70A85, 0x56A4B9CF), (0x2E1B2138, 0x09EF7A44), (0x4D2C6DFC, 0x016A8A9A), (0x53380D13, 0xF492EAA9),
     (0x650A7354, 0x74F3DA70), (0x766A0ABB, 0xED04C0EA), (0x81C2C92E, 0xEA3D3B03), (0x92722C85, 0x7F8D799E),
     (0xA2BFE8A1, 0xCA10D92C), (0xA81A664B, 0x890FA976), (0xC24B8B70, 0x80E323EC), (0xC76C51A3, 0xEC98BF42),
     (0xD192E819, 0xFC06006D), (0xD6990624, 0xAF3896C8), (0xF40E3585, 0x19BA4274), (0x106AA070, 0xBCA3D2A3)]
   = (0x149A1F79, 0x327393C5, 0x5A3BEB9C, 0x0D172008, 0x2333763A, 0xDB654BE6, 0xD46F1CCD, 0x2B462D0C)"
  by (simp add: Sigma0_def Sigma1_def Ch_def Maj_def rotr_def)

lemma pin654321_rounds_3:
  "foldl round (0x149A1F79, 0x327393C5, 0x5A3BEB9C, 0x0D172008, 0x2333763A, 0xDB654BE6, 0xD46F1CCD, 0x2B462D0C)
     [(0x19A4C116, 0xA0E67886), (0x1E376C08, 0xB486237D), (0x2748774C, 0xD9500D71), (0x34B0BCB5, 0xDF80BA37),
     (0x391C0CB3, 0x238D1F96), (0x4ED8AA4A, 0xA57D1F15), (0x5B9CCA4F, 0x407B6EB9), (0x682E6FF3, 0xC352338D),
     (0x748F82EE, 0x6FA0DBD1), (0x78A5636F, 0xC3CDC638), (0x84C87814, 0x8E87EDE5), (0x8CC70208, 0xB0751CD2),
     (0x90BEFFFA, 0x4DFC3F24), (0xA4506CEB, 0x992C5398), (0xBEF9A3F7, 0x19B81928), (0xC67178F2, 0x575A6EF3)]
   = (0xDE158659, 0x95A99547, 0xA10F39A9, 0x764505B6, 0x55F25635, 0x01CBD096, 0x87878137, 0x2EE9DBAC)"
  by (simp add: Sigma0_def Sigma1_def Ch_def Maj_def rotr_def)

lemma pin654321_zip:
  "zip K256 pin654321_schedule =
     [(0x428A2F98, 0x36353433), (0x71374491, 0x32318000), (0xB5C0FBCF, 0x00000000), (0xE9B5DBA5, 0x00000000),
     (0x3956C25B, 0x00000000), (0x59F111F1, 0x00000000), (0x923F82A4, 0x00000000), (0xAB1C5ED5, 0x00000000),
     (0xD807AA98, 0x00000000), (0x12835B01, 0x00000000), (0x243185BE, 0x00000000), (0x550C7DC3, 0x00000000),
     (0x72BE5D74, 0x00000000), (0x80DEB1FE, 0x00000000), (0x9BDC06A7, 0x00000000), (0xC19BF174, 0x00000030)]
   @ [(0xE49B69C1, 0x9C5793BF), (0xEFBE4786, 0x324F8000), (0x0FC19DC6, 0x3B8F2845), (0x240CA1CC, 0x300C8C8E),
     (0x2DE92C6F, 0x7124D97C), (0x4A7484AA, 0xD7DADD24), (0x5CB0A9DC, 0xF78DFFB0), (0x76F988DA, 0xD15A9B60),
     (0x983E5152, 0x72630648), (0xA831C66D, 0x5A774C65), (0xB00327C8, 0x13FE3C4A), (0xBF597FC7, 0xC0CD7522),
     (0xC6E00BF3, 0xB1839133), (0xD5A79147, 0x0B930AD2), (0x06CA6351, 0xEBFA697B), (0x14292967, 0xDEF26136)]
   @ [(0x27B70A85, 0x56A4B9CF), (0x2E1B2138, 0x09EF7A44), (0x4D2C6DFC, 0x016A8A9A), (0x53380D13, 0xF492EAA9),
     (0x650A7354, 0x74F3DA70), (0x766A0ABB, 0xED04C0EA), (0x81C2C92E, 0xEA3D3B03), (0x92722C85, 0x7F8D799E),
     (0xA2BFE8A1, 0xCA10D92C), (0xA81A664B, 0x890FA976), (0xC24B8B70, 0x80E323EC), (0xC76C51A3, 0xEC98BF42),
     (0xD192E819, 0xFC06006D), (0xD6990624, 0xAF3896C8), (0xF40E3585, 0x19BA4274), (0x106AA070, 0xBCA3D2A3)]
   @ [(0x19A4C116, 0xA0E67886), (0x1E376C08, 0xB486237D), (0x2748774C, 0xD9500D71), (0x34B0BCB5, 0xDF80BA37),
     (0x391C0CB3, 0x238D1F96), (0x4ED8AA4A, 0xA57D1F15), (0x5B9CCA4F, 0x407B6EB9), (0x682E6FF3, 0xC352338D),
     (0x748F82EE, 0x6FA0DBD1), (0x78A5636F, 0xC3CDC638), (0x84C87814, 0x8E87EDE5), (0x8CC70208, 0xB0751CD2),
     (0x90BEFFFA, 0x4DFC3F24), (0xA4506CEB, 0x992C5398), (0xBEF9A3F7, 0x19B81928), (0xC67178F2, 0x575A6EF3)]"
  by (simp add: K256_def pin654321_schedule_def)

lemma pin654321_compress:
  "compress H0 pin654321_block = (0x481F6CC0, 0x511143CC, 0xDD7E2D1B, 0x1B94FAF0, 0xA700A8B4, 0x9CD13922, 0xA70B5AE2, 0x8ACAA8C5)"
  unfolding compress_def pin654321_words_of_block pin654321_schedule_eq pin654321_zip foldl_append H0_def
    pin654321_rounds_0 pin654321_rounds_1 pin654321_rounds_2 pin654321_rounds_3
  by simp

lemma pin654321_sha256:
  "sha256 pin654321_bytes =
    [72, 31, 108, 192, 81, 17, 67, 204, 221, 126, 45, 27, 27, 148, 250, 240,
    167, 0, 168, 180, 156, 209, 57, 34, 167, 11, 90, 226, 138, 202, 168, 197]"
  by (simp add: sha256_def pin654321_pad pin654321_blocks pin654321_compress bytes_be_def upt_0_4)

lemma pin654321_digest:
  "hashString ''654321'' = ''481f6cc0511143ccdd7e2d1b1b94faf0a700a8b49cd13922a70b5ae28acaa8c5''"
  by (simp add: hashString_eq_spec spec_hash_def pin654321_encode pin654321_sha256 hex_of_byte_def
        hexdigit_def)

lemma digests_differ: "hashString ''654321'' \<noteq> hashString ''123456''"
  by (simp add: pin123456_digest pin654321_digest)

section \<open>Properties of \<open>openDatabase\<close>\<close>

lemma ok_env_simps [simp]:
  "fails ok_env r = False" "cursor_error_at ok_env = None" "upgrade ok_env = False"
  by (simp_all add: ok_env_def)

lemma openDatabase_memo: "db s = Some h \<Longrightarrow> openDatabase e s = (Resolved h, s)"
  by (simp add: openDatabase_def openDatabase_executor_def)

lemma openDatabase_first:
  "db s = None \<Longrightarrow> \<not> fails e Open \<Longrightarrow>
   openDatabase e s = (Resolved (opens s), s\<lparr>opens := Suc (opens s), db := Some (opens s)\<rparr>)"
  by (simp add: openDatabase_def openDatabase_executor_def onsuccess_def onupgradeneeded_def)

lemma openDatabase_error:
  "db s = None \<Longrightarrow> fails e Open \<Longrightarrow>
   openDatabase e s = (Rejected OpenError, s\<lparr>opens := Suc (opens s)\<rparr>)"
  by (simp add: openDatabase_def openDatabase_executor_def onerror_def)

lemma openDatabase_cases:
  obtains (memo) h where "db s = Some h" "openDatabase e s = (Resolved h, s)"
  | (first) "db s = None" "\<not> fails e Open"
      "openDatabase e s = (Resolved (opens s), s\<lparr>opens := Suc (opens s), db := Some (opens s)\<rparr>)"
  | (error) "db s = None" "fails e Open"
      "openDatabase e s = (Rejected OpenError, s\<lparr>opens := Suc (opens s)\<rparr>)"
  using openDatabase_memo openDatabase_first openDatabase_error by (cases "db s") blast+

lemma openDatabase_stores [simp]:
  "blockedAuthors (snd (openDatabase e s)) = blockedAuthors s"
  "keygen (snd (openDatabase e s)) = keygen s"
  "settings (snd (openDatabase e s)) = settings s"
  "alerts (snd (openDatabase e s)) = alerts s"
  by (cases e s rule: openDatabase_cases; simp)+

lemma openDatabase_not_Pending: "fst (openDatabase e s) \<noteq> Pending"
  by (cases e s rule: openDatabase_cases) simp_all

lemma openDatabase_Resolved: "openDatabase e s = (Resolved h, s') \<Longrightarrow> db s' = Some h"
  by (cases e s rule: openDatabase_cases) auto

lemma openDatabase_available:
  assumes "db s \<noteq> None \<or> \<not> fails e Open"
  obtains h s' where "openDatabase e s = (Resolved h, s')" "db s' = Some h"
    "blockedAuthors s' = blockedAuthors s" "keygen s' = keygen s"
    "settings s' = settings s" "alerts s' = alerts s"
  using assms by (cases e s rule: openDatabase_cases) auto

lemma openDatabase_eqD:
  "openDatabase e s = (r, s') \<Longrightarrow>
   blockedAuthors s' = blockedAuthors s \<and> keygen s' = keygen s
   \<and> settings s' = settings s \<and> alerts s' = alerts s"
  by (cases e s rule: openDatabase_cases) auto

text \<open>What the memo does give: once a call has resolved, every later call resolves with the
  same connection and issues no further open request.\<close>

lemma openDatabase_memoized:
  "openDatabase e s = (Resolved h, s') \<Longrightarrow> openDatabase e' s' = (Resolved h, s')"
  by (rule openDatabase_memo) (rule openDatabase_Resolved)

text \<open>
  C7. Two calls of \<open>openDatabase\<close> made before the first open request has completed: each finds
  \<open>db\<close> unset and calls \<open>indexedDB.open\<close>, so two requests are issued, and when they succeed
  the two callers are handed two different connections.
\<close>

theorem openDatabase_opens_twice:
  "fst (openDatabase_executor init) = Requested 0
   \<and> fst (openDatabase_executor (snd (openDatabase_executor init))) = Requested 1
   \<and> opens (snd (openDatabase_executor (snd (openDatabase_executor init)))) = 2
   \<and> fst (onsuccess 0 (snd (openDatabase_executor (snd (openDatabase_executor init)))))
       = Resolved 0
   \<and> fst (onsuccess 1 (snd (onsuccess 0
         (snd (openDatabase_executor (snd (openDatabase_executor init)))))))
       = Resolved 1"
  by (simp add: openDatabase_executor_def init_def onsuccess_def)

section \<open>What each call leaves untouched\<close>

lemma cursor_walk_False:
  "cursor_walk err l as = Resolved False \<Longrightarrow> \<forall>a \<in> set as. toLowerCase (author_name a) \<noteq> l"
  by (induction as arbitrary: err) (auto split: if_splits)

lemma addAuthor_effect:
  "(blockedAuthors (snd (addAuthor e n s)) = blockedAuthors s
      \<and> keygen (snd (addAuthor e n s)) = keygen s)
   \<or> ((\<forall>a \<in> set (blockedAuthors s). toLowerCase (author_name a) \<noteq> toLowerCase n)
      \<and> blockedAuthors (snd (addAuthor e n s))
          = blockedAuthors s @ [\<lparr>author_id = keygen s, author_name = toLowerCase n\<rparr>]
      \<and> keygen (snd (addAuthor e n s)) = Suc (keygen s))"
  by (auto simp: addAuthor_def authorExists_def
           split: prod.splits promise.splits bool.splits if_splits
           dest!: openDatabase_eqD cursor_walk_False)

lemma addAuthor_settings [simp]: "settings (snd (addAuthor e n s)) = settings s"
  by (auto simp: addAuthor_def authorExists_def
           split: prod.splits promise.splits bool.splits if_splits
           dest!: openDatabase_eqD)

lemma deleteAuthor_effect:
  "keygen (snd (deleteAuthor e k s)) = keygen s
   \<and> settings (snd (deleteAuthor e k s)) = settings s
   \<and> (blockedAuthors (snd (deleteAuthor e k s)) = blockedAuthors s
      \<or> blockedAuthors (snd (deleteAuthor e k s))
          = filter (\<lambda>a. NumKey (int (author_id a)) \<noteq> k) (blockedAuthors s))"
  by (auto simp: deleteAuthor_def split: prod.splits promise.splits if_splits
           dest!: openDatabase_eqD)

lemma clearAuthors_effect:
  "keygen (snd (clearAuthors e s)) = keygen s
   \<and> settings (snd (clearAuthors e s)) = settings s
   \<and> (blockedAuthors (snd (clearAuthors e s)) = blockedAuthors s
      \<or> blockedAuthors (snd (clearAuthors e s)) = [])"
  by (auto simp: clearAuthors_def split: prod.splits promise.splits if_splits
           dest!: openDatabase_eqD)

lemma getAuthors_stores [simp]:
  "blockedAuthors (snd (getAuthors e s)) = blockedAuthors s"
  "keygen (snd (getAuthors e s)) = keygen s"
  "settings (snd (getAuthors e s)) = settings s"
  by (auto simp: getAuthors_def split: prod.splits promise.splits if_splits
           dest!: openDatabase_eqD)

lemma isPINSet_stores [simp]:
  "blockedAuthors (snd (isPINSet e s)) = blockedAuthors s"
  "keygen (snd (isPINSet e s)) = keygen s"
  "settings (snd (isPINSet e s)) = settings s"
  by (auto simp: isPINSet_def split: prod.splits promise.splits if_splits option.splits
           dest!: openDatabase_eqD)

lemma setPIN_authors [simp]:
  "blockedAuthors (snd (setPIN e p s)) = blockedAuthors s"
  "keygen (snd (setPIN e p s)) = keygen s"
  by (auto simp: setPIN_def split: prod.splits promise.splits if_splits
           dest!: openDatabase_eqD)

lemma verifyPIN_stores [simp]:
  "blockedAuthors (snd (verifyPIN e p s)) = blockedAuthors s"
  "keygen (snd (verifyPIN e p s)) = keygen s"
  "settings (snd (verifyPIN e p s)) = settings s"
  "alerts (snd (verifyPIN e p s)) = alerts s"
  by (cases e s rule: openDatabase_cases; simp add: verifyPIN_def split: option.splits)+

lemma updatePIN_authors [simp]:
  "blockedAuthors (snd (updatePIN e p q s)) = blockedAuthors s"
  "keygen (snd (updatePIN e p q s)) = keygen s"
  by (auto simp: updatePIN_def verifyPIN_def
           split: prod.splits promise.splits if_splits option.splits bool.splits
           dest!: openDatabase_eqD)

section \<open>Two concrete runs\<close>

text \<open>The state after \<open>addAuthor("PewDiePie")\<close> and the state after \<open>setPIN("123456")\<close>, each on the
  initial state with every request succeeding.\<close>

lemma lower_PewDiePie: "toLowerCase ''PewDiePie'' = ''pewdiepie''"
  by code_simp

lemma lower_pewdiepie: "toLowerCase ''pewdiepie'' = ''pewdiepie''"
  by code_simp

lemma add_PewDiePie:
  "addAuthor ok_env ''PewDiePie'' init =
     (Resolved (Some 1),
      \<lparr>db = Some 0, opens = 1,
       blockedAuthors = [\<lparr>author_id = 1, author_name = ''pewdiepie''\<rparr>],
       keygen = 2, settings = Map.empty, alerts = []\<rparr>)"
  by (simp add: addAuthor_def authorExists_def openDatabase_def openDatabase_executor_def
        onsuccess_def init_def lower_PewDiePie)

lemma set_123456:
  "setPIN ok_env ''123456'' init =
     (Resolved (),
      \<lparr>db = Some 0, opens = 1, blockedAuthors = [], keygen = 1,
       settings = [''pin'' \<mapsto> pin_record (hashString ''123456'')], alerts = []\<rparr>)"
  by (simp add: setPIN_def openDatabase_def openDatabase_executor_def onsuccess_def init_def)

section \<open>Properties of the PIN functions\<close>

text \<open>
  C1. When the connection is available (memoized, or the open succeeds) and the read of the
  \<open>"pin"\<close> record succeeds, \<open>verifyPIN(p)\<close> resolves, and resolves with true exactly when a
  \<open>"pin"\<close> record is stored and its value equals \<open>hashString p\<close>; with no \<open>"pin"\<close> record it resolves
  with false, for every \<open>p\<close>.
\<close>

theorem verifyPIN_iff_digest:
  assumes "db s \<noteq> None \<or> \<not> fails e Open" and "\<not> fails e Get"
  shows "fst (verifyPIN e p s) =
           Resolved (case settings s ''pin'' of
                       None \<Rightarrow> False
                     | Some r \<Rightarrow> setting_value r = hashString p)"
proof -
  from assms(1) obtain h s' where "openDatabase e s = (Resolved h, s')" "settings s' = settings s"
    by (rule openDatabase_available)
  with assms(2) show ?thesis
    by (simp add: verifyPIN_def split: option.splits)
qed

theorem verifyPIN_iff_digest_witness:
  "fst (verifyPIN ok_env ''123456'' (snd (setPIN ok_env ''123456'' init))) = Resolved True
   \<and> fst (verifyPIN ok_env ''654321'' (snd (setPIN ok_env ''123456'' init))) = Resolved False
   \<and> fst (verifyPIN ok_env ''123456'' init) = Resolved False"
  using verifyPIN_iff_digest [of "snd (setPIN ok_env ''123456'' init)" ok_env "''123456''"]
        verifyPIN_iff_digest [of "snd (setPIN ok_env ''123456'' init)" ok_env "''654321''"]
        verifyPIN_iff_digest [of init ok_env "''123456''"]
        digests_differ
  by (simp add: set_123456 pin_record_def) (simp add: init_def)





lemma verifyPIN_Resolved_db:
  "fst (verifyPIN e p s) = Resolved b \<Longrightarrow> db (snd (verifyPIN e p s)) \<noteq> None"
  by (cases e s rule: openDatabase_cases) (auto simp: verifyPIN_def split: option.splits if_splits)

text \<open>
  C2. If the \<open>verifyPIN(old)\<close> inside \<open>updatePIN(old, new)\<close> resolves with false, the update is
  rejected with "Old PIN is incorrect." and the settings are unchanged. If it resolves with true
  and the write succeeds, the update resolves; afterwards \<open>verifyPIN(new)\<close> gives true and
  \<open>verifyPIN(old)\<close> gives true only if the two digests are equal, so false for an old PIN whose
  digest differs from the new one's.
\<close>

theorem updatePIN_reauthenticates:
  "(fst (verifyPIN e oldPIN s) = Resolved False \<longrightarrow>
      fst (updatePIN e oldPIN newPIN s) = Rejected OldPINIncorrect
      \<and> settings (snd (updatePIN e oldPIN newPIN s)) = settings s)
   \<and> (fst (verifyPIN e oldPIN s) = Resolved True \<and> \<not> fails e Put \<longrightarrow>
      fst (updatePIN e oldPIN newPIN s) = Resolved ()
      \<and> fst (verifyPIN ok_env newPIN (snd (updatePIN e oldPIN newPIN s))) = Resolved True
      \<and> fst (verifyPIN ok_env oldPIN (snd (updatePIN e oldPIN newPIN s)))
          = Resolved (hashString oldPIN = hashString newPIN))"
proof (intro conjI impI)
  assume no: "fst (verifyPIN e oldPIN s) = Resolved False"
  then show "fst (updatePIN e oldPIN newPIN s) = Rejected OldPINIncorrect"
    by (cases "verifyPIN e oldPIN s") (simp add: updatePIN_def)
  from no have "snd (updatePIN e oldPIN newPIN s) = snd (verifyPIN e oldPIN s)"
    by (cases "verifyPIN e oldPIN s") (simp add: updatePIN_def)
  then show "settings (snd (updatePIN e oldPIN newPIN s)) = settings s"
    by simp
next
  assume yes: "fst (verifyPIN e oldPIN s) = Resolved True \<and> \<not> fails e Put"
  obtain s1 where v: "verifyPIN e oldPIN s = (Resolved True, s1)"
    using yes by (cases "verifyPIN e oldPIN s") simp
  then have "db s1 \<noteq> None"
    using verifyPIN_Resolved_db [of e oldPIN s True] by simp
  then obtain h where h: "db s1 = Some h" by blast
  have u: "updatePIN e oldPIN newPIN s =
             (Resolved (), s1\<lparr>settings := (settings s1)(''pin'' \<mapsto> pin_record (hashString newPIN))\<rparr>)"
    using yes v h by (simp add: updatePIN_def openDatabase_memo)
  show "fst (updatePIN e oldPIN newPIN s) = Resolved ()"
    by (simp add: u)
  show "fst (verifyPIN ok_env newPIN (snd (updatePIN e oldPIN newPIN s))) = Resolved True"
    using h by (simp add: u verifyPIN_def openDatabase_memo ok_env_def pin_record_def)
  show "fst (verifyPIN ok_env oldPIN (snd (updatePIN e oldPIN newPIN s)))
          = Resolved (hashString oldPIN = hashString newPIN)"
    using h by (auto simp: u verifyPIN_def openDatabase_memo ok_env_def pin_record_def)
qed

theorem updatePIN_reauthenticates_witness:
  "fst (updatePIN ok_env ''000000'' ''123456'' init) = Rejected OldPINIncorrect
   \<and> fst (updatePIN ok_env ''123456'' ''654321'' (snd (setPIN ok_env ''123456'' init))) = Resolved ()
   \<and> fst (verifyPIN ok_env ''654321''
        (snd (updatePIN ok_env ''123456'' ''654321'' (snd (setPIN ok_env ''123456'' init)))))
       = Resolved True
   \<and> fst (verifyPIN ok_env ''123456''
        (snd (updatePIN ok_env ''123456'' ''654321'' (snd (setPIN ok_env ''123456'' init)))))
       = Resolved False"
proof -
  have no: "fst (verifyPIN ok_env ''000000'' init) = Resolved False"
    by (simp add: verifyPIN_def openDatabase_def openDatabase_executor_def onsuccess_def init_def)
  have yes: "fst (verifyPIN ok_env ''123456'' (snd (setPIN ok_env ''123456'' init))) = Resolved True"
    by (simp add: set_123456 verifyPIN_def openDatabase_def openDatabase_executor_def pin_record_def)
  from no yes show ?thesis
    using updatePIN_reauthenticates [of ok_env "''000000''" init "''123456''"]
          updatePIN_reauthenticates [of ok_env "''123456''" "snd (setPIN ok_env ''123456'' init)"
            "''654321''"]
          digests_differ
    by auto
qed

lemma setPIN_fault_free:
  assumes "db s \<noteq> None \<or> \<not> fails e Open" and "\<not> fails e Put"
  shows "fst (setPIN e pin s) = Resolved ()"
    and "settings (snd (setPIN e pin s))
           = (settings s)(''pin'' \<mapsto>
               \<lparr>setting_id = ''pin'', setting_type = ''pin'', setting_value = hashString pin\<rparr>)"
    and "db (snd (setPIN e pin s)) \<noteq> None"
proof -
  from assms(1) obtain h s' where "openDatabase e s = (Resolved h, s')" "db s' = Some h"
    "settings s' = settings s"
    by (rule openDatabase_available)
  with assms(2) show "fst (setPIN e pin s) = Resolved ()"
    and "settings (snd (setPIN e pin s))
           = (settings s)(''pin'' \<mapsto>
               \<lparr>setting_id = ''pin'', setting_type = ''pin'', setting_value = hashString pin\<rparr>)"
    and "db (snd (setPIN e pin s)) \<noteq> None"
    by (simp_all add: setPIN_def pin_record_def)
qed

lemma setPIN_Resolved:
  assumes "fst (setPIN e pin s) = Resolved ()"
  shows "db (snd (setPIN e pin s)) \<noteq> None" and "settings (snd (setPIN e pin s)) ''pin'' \<noteq> None"
  using assms
  by (cases e s rule: openDatabase_cases; simp add: setPIN_def split: if_splits)+

lemma setPIN_unresolved:
  "fst (setPIN e pin s) \<noteq> Resolved () \<Longrightarrow> settings (snd (setPIN e pin s)) = settings s"
  by (cases e s rule: openDatabase_cases; simp add: setPIN_def split: if_splits)

lemma updatePIN_unset:
  "settings s ''pin'' = None \<Longrightarrow> settings (snd (updatePIN e p q s)) = settings s"
  by (cases e s rule: openDatabase_cases; simp add: updatePIN_def verifyPIN_def)

lemma isPINSet_result:
  assumes "db s \<noteq> None \<or> \<not> fails e Open"
  shows "fst (isPINSet e s) = Resolved (\<not> fails e Get \<and> settings s ''pin'' \<noteq> None)"
proof -
  from assms obtain h s' where "openDatabase e s = (Resolved h, s')" "settings s' = settings s"
    by (rule openDatabase_available)
  then show ?thesis
    by (auto simp: isPINSet_def split: option.splits)
qed

lemma exec_keeps_unset:
  assumes "settings s ''pin'' = None" and "\<not> setPIN_resolves c s"
  shows "settings (exec c s) ''pin'' = None"
proof -
  obtain e k where c: "c = (e, k)" by (cases c)
  show ?thesis
  proof (cases k)
    case (SetPIN p)
    with assms c show ?thesis by (simp add: setPIN_unresolved)
  next
    case (UpdatePIN p q)
    with assms c show ?thesis by (simp add: updatePIN_unset)
  next
    case (DeleteAuthor key)
    with assms c deleteAuthor_effect [of e key s] show ?thesis by simp
  next
    case ClearAuthors
    with assms c clearAuthors_effect [of e s] show ?thesis by simp
  qed (use assms c in simp_all)
qed

lemma run_keeps_unset:
  "settings s ''pin'' = None \<Longrightarrow> no_setPIN_resolves cs s \<Longrightarrow> settings (run cs s) ''pin'' = None"
  by (induction cs arbitrary: s) (simp_all add: exec_keeps_unset)

text \<open>
  C5. When the connection is available and the write succeeds, \<open>setPIN(pin)\<close> resolves and the
  settings are the old ones with the record \<open>{id: "pin", type: "pin", value: hashString(pin)}\<close>
  put under \<open>"pin"\<close>, whatever was there and whatever \<open>pin\<close> is. After any sequence of calls
  from the initial state in which no \<open>setPIN\<close> resolved, \<open>isPINSet()\<close> gives false; right after a
  \<open>setPIN\<close> that resolved it gives true.
\<close>

theorem setPIN_upserts_and_isPINSet:
  "((db s \<noteq> None \<or> \<not> fails e Open) \<and> \<not> fails e Put \<longrightarrow>
       fst (setPIN e pin s) = Resolved ()
       \<and> settings (snd (setPIN e pin s))
           = (settings s)(''pin'' \<mapsto>
               \<lparr>setting_id = ''pin'', setting_type = ''pin'', setting_value = hashString pin\<rparr>))
   \<and> (no_setPIN_resolves cs init \<longrightarrow> fst (isPINSet ok_env (run cs init)) = Resolved False)
   \<and> (fst (setPIN e pin s) = Resolved () \<longrightarrow>
       fst (isPINSet ok_env (snd (setPIN e pin s))) = Resolved True)"
proof (intro conjI impI)
  assume "(db s \<noteq> None \<or> \<not> fails e Open) \<and> \<not> fails e Put"
  then show "fst (setPIN e pin s) = Resolved ()"
    and "settings (snd (setPIN e pin s))
           = (settings s)(''pin'' \<mapsto>
               \<lparr>setting_id = ''pin'', setting_type = ''pin'', setting_value = hashString pin\<rparr>)"
    by (simp_all add: setPIN_fault_free)
next
  assume "no_setPIN_resolves cs init"
  then have "settings (run cs init) ''pin'' = None"
    by (simp add: run_keeps_unset init_def)
  then show "fst (isPINSet ok_env (run cs init)) = Resolved False"
    by (simp add: isPINSet_result)
next
  assume "fst (setPIN e pin s) = Resolved ()"
  then show "fst (isPINSet ok_env (snd (setPIN e pin s))) = Resolved True"
    by (simp add: isPINSet_result setPIN_Resolved)
qed

theorem setPIN_upserts_and_isPINSet_witness:
  "fst (isPINSet ok_env (run [(ok_env, VerifyPIN ''123456'')] init)) = Resolved False
   \<and> fst (setPIN ok_env ''123456'' init) = Resolved ()
   \<and> settings (snd (setPIN ok_env ''123456'' init)) ''pin''
       = Some \<lparr>setting_id = ''pin'', setting_type = ''pin'',
               setting_value = hashString ''123456''\<rparr>
   \<and> fst (isPINSet ok_env (snd (setPIN ok_env ''123456'' init))) = Resolved True"
  using setPIN_upserts_and_isPINSet [of init ok_env "''123456''" "[(ok_env, VerifyPIN ''123456'')]"]
  by (simp add: init_def)

section \<open>Properties of the author functions\<close>

lemma toLowerCase_unit_idem: "toLowerCase_unit (toLowerCase_unit c) = toLowerCase_unit c"
  by (auto simp: toLowerCase_unit_def Let_def)

lemma toLowerCase_idem: "toLowerCase (toLowerCase n) = toLowerCase n"
  by (simp add: toLowerCase_def toLowerCase_unit_idem)

lemma cursor_walk_ok:
  "cursor_walk None l as = Resolved (\<exists>a \<in> set as. toLowerCase (author_name a) = l)"
  by (induction as) auto

lemma authorExists_ok:
  assumes "db s \<noteq> None \<or> \<not> fails e Open" and "cursor_error_at e = None"
  obtains s' where
    "authorExists e n s =
       (Resolved (\<exists>a \<in> set (blockedAuthors s). toLowerCase (author_name a) = toLowerCase n), s')"
    "db s' \<noteq> None" "blockedAuthors s' = blockedAuthors s" "keygen s' = keygen s"
    "settings s' = settings s" "alerts s' = alerts s"
proof -
  from assms(1) obtain h s' where o: "openDatabase e s = (Resolved h, s')" "db s' = Some h"
    "blockedAuthors s' = blockedAuthors s" "keygen s' = keygen s"
    "settings s' = settings s" "alerts s' = alerts s"
    by (rule openDatabase_available)
  then have "authorExists e n s =
       (Resolved (\<exists>a \<in> set (blockedAuthors s). toLowerCase (author_name a) = toLowerCase n), s')"
    using assms(2) by (simp add: authorExists_def cursor_walk_ok)
  with o that show thesis by simp
qed

lemma addAuthor_fault_free:
  assumes "db s \<noteq> None \<or> \<not> fails e Open" and "cursor_error_at e = None" and "\<not> fails e Add"
  shows "if \<exists>a \<in> set (blockedAuthors s). toLowerCase (author_name a) = toLowerCase authorName
         then fst (addAuthor e authorName s) = Resolved None
              \<and> blockedAuthors (snd (addAuthor e authorName s)) = blockedAuthors s
              \<and> alerts (snd (addAuthor e authorName s))
                  = alerts s @ [''Author already exists: '' @ authorName]
         else fst (addAuthor e authorName s) = Resolved (Some (keygen s))
              \<and> blockedAuthors (snd (addAuthor e authorName s))
                  = blockedAuthors s @ [\<lparr>author_id = keygen s, author_name = toLowerCase authorName\<rparr>]
              \<and> alerts (snd (addAuthor e authorName s)) = alerts s"
proof -
  from assms(1,2) obtain s1 where x:
    "authorExists e authorName s =
       (Resolved (\<exists>a \<in> set (blockedAuthors s). toLowerCase (author_name a) = toLowerCase authorName), s1)"
    "db s1 \<noteq> None" "blockedAuthors s1 = blockedAuthors s" "keygen s1 = keygen s"
    "settings s1 = settings s" "alerts s1 = alerts s"
    by (rule authorExists_ok)
  from x(2) obtain h where "db s1 = Some h" by blast
  then have "openDatabase e s1 = (Resolved h, s1)" by (rule openDatabase_memo)
  with x assms(3) show ?thesis
    by (simp add: addAuthor_def)
qed

text \<open>
  C4. In an environment where the open (if one is needed), the cursor walk and the add succeed:
  if some stored record has the same lower-case name, \<open>addAuthor(name)\<close> resolves with
  \<open>undefined\<close>, leaves the store as it was and shows the alert "Author already exists: name";
  otherwise it appends the record with the next generated key and the lower-cased name, and
  resolves with that key.
\<close>

theorem addAuthor_declines_or_inserts:
  assumes "db s \<noteq> None \<or> \<not> fails e Open" and "cursor_error_at e = None" and "\<not> fails e Add"
  shows "if \<exists>a \<in> set (blockedAuthors s). toLowerCase (author_name a) = toLowerCase authorName
         then fst (addAuthor e authorName s) = Resolved None
              \<and> blockedAuthors (snd (addAuthor e authorName s)) = blockedAuthors s
              \<and> alerts (snd (addAuthor e authorName s))
                  = alerts s @ [''Author already exists: '' @ authorName]
         else fst (addAuthor e authorName s) = Resolved (Some (keygen s))
              \<and> blockedAuthors (snd (addAuthor e authorName s))
                  = blockedAuthors s @ [\<lparr>author_id = keygen s, author_name = toLowerCase authorName\<rparr>]
              \<and> alerts (snd (addAuthor e authorName s)) = alerts s"
  using assms by (rule addAuthor_fault_free)

theorem addAuthor_declines_or_inserts_witness:
  "fst (addAuthor ok_env ''PewDiePie'' init) = Resolved (Some 1)
   \<and> fst (addAuthor ok_env ''pewdiepie'' (snd (addAuthor ok_env ''PewDiePie'' init))) = Resolved None
   \<and> alerts (snd (addAuthor ok_env ''pewdiepie'' (snd (addAuthor ok_env ''PewDiePie'' init))))
       = [''Author already exists: pewdiepie'']"
  using addAuthor_declines_or_inserts [of init ok_env "''PewDiePie''"]
        addAuthor_declines_or_inserts [of "snd (addAuthor ok_env ''PewDiePie'' init)" ok_env
          "''pewdiepie''"]
  by (simp add: add_PewDiePie lower_pewdiepie)

lemma store_inv_init: "store_inv init"
  by (simp add: store_inv_def init_def)

lemma store_inv_exec: "store_inv s \<Longrightarrow> store_inv (exec c s)"
proof -
  assume inv: "store_inv s"
  obtain e k where c: "c = (e, k)" by (cases c)
  show ?thesis
  proof (cases k)
    case (AddAuthor n)
    from addAuthor_effect [of e n s] inv show ?thesis
      unfolding c AddAuthor store_inv_def
      by (fastforce simp: toLowerCase_idem less_Suc_eq)
  next
    case (DeleteAuthor key)
    from deleteAuthor_effect [of e key s] inv show ?thesis
      unfolding c DeleteAuthor store_inv_def
      by (auto simp: distinct_map_filter)
  next
    case ClearAuthors
    from clearAuthors_effect [of e s] inv show ?thesis
      unfolding c ClearAuthors store_inv_def by auto
  qed (use inv in \<open>simp_all add: c store_inv_def\<close>)
qed

lemma store_inv_run: "store_inv s \<Longrightarrow> store_inv (run cs s)"
  by (induction cs arbitrary: s) (simp_all add: store_inv_exec)

lemma filter_key_unique:
  "distinct (map f xs) \<Longrightarrow> a \<in> set xs \<Longrightarrow> filter (\<lambda>x. f x = f a) xs = [a]"
proof (induction xs)
  case Nil
  then show ?case by simp
next
  case (Cons x xs)
  show ?case
  proof (cases "x = a")
    case True
    with Cons.prems have "\<forall>y \<in> set xs. f y \<noteq> f a" by (force simp: image_iff)
    then have "filter (\<lambda>x. f x = f a) xs = []" by (simp add: filter_empty_conv)
    with True show ?thesis by simp
  next
    case False
    with Cons.prems have "a \<in> set xs" "f x \<noteq> f a" by auto
    with Cons show ?thesis by simp
  qed
qed

lemma filter_other_keys:
  "distinct (map f xs) \<Longrightarrow> a \<in> set xs \<Longrightarrow> filter (\<lambda>x. f x \<noteq> f a) xs = remove1 a xs"
proof (induction xs)
  case Nil
  then show ?case by simp
next
  case (Cons x xs)
  show ?case
  proof (cases "x = a")
    case True
    with Cons.prems have "\<forall>y \<in> set xs. f y \<noteq> f a" by (force simp: image_iff)
    then have "filter (\<lambda>x. f x \<noteq> f a) xs = xs" by (simp add: filter_id_conv)
    with True show ?thesis by simp
  next
    case False
    with Cons.prems have "a \<in> set xs" "f x \<noteq> f a" by auto
    with Cons False show ?thesis by simp
  qed
qed

lemma addAuthor_twice:
  assumes same: "toLowerCase n1 = toLowerCase n2" and inv: "store_inv s"
  shows "\<exists>k. filter (\<lambda>a. toLowerCase (author_name a) = toLowerCase n1)
               (blockedAuthors (snd (addAuthor ok_env n2 (snd (addAuthor ok_env n1 s)))))
             = [\<lparr>author_id = k, author_name = toLowerCase n1\<rparr>]"
proof -
  let ?s1 = "snd (addAuthor ok_env n1 s)"
  let ?s2 = "snd (addAuthor ok_env n2 ?s1)"
  let ?f = "\<lambda>a. toLowerCase (author_name a)"
  have one: "if \<exists>a \<in> set (blockedAuthors s). ?f a = toLowerCase n1
             then blockedAuthors ?s1 = blockedAuthors s
             else blockedAuthors ?s1
                    = blockedAuthors s @ [\<lparr>author_id = keygen s, author_name = toLowerCase n1\<rparr>]"
    using addAuthor_fault_free [of s ok_env n1] by (simp split: if_splits)
  have two: "if \<exists>a \<in> set (blockedAuthors ?s1). ?f a = toLowerCase n2
             then blockedAuthors ?s2 = blockedAuthors ?s1
             else blockedAuthors ?s2
                    = blockedAuthors ?s1 @ [\<lparr>author_id = keygen ?s1, author_name = toLowerCase n2\<rparr>]"
    using addAuthor_fault_free [of ?s1 ok_env n2] by (simp split: if_splits)
  show ?thesis
  proof (cases "\<exists>a \<in> set (blockedAuthors s). ?f a = toLowerCase n1")
    case True
    then obtain a where a: "a \<in> set (blockedAuthors s)" "?f a = toLowerCase n1" by blast
    from True one have s1: "blockedAuthors ?s1 = blockedAuthors s" by simp
    with True same two have s2: "blockedAuthors ?s2 = blockedAuthors s" by simp
    from inv a(1) have "distinct (map ?f (blockedAuthors s))" and "?f a = author_name a"
      by (simp_all add: store_inv_def)
    then have "filter (\<lambda>x. ?f x = ?f a) (blockedAuthors s) = [a]"
      and "author_name a = toLowerCase n1"
      using a filter_key_unique [of ?f "blockedAuthors s" a] by simp_all
    then have "filter (\<lambda>x. ?f x = toLowerCase n1) (blockedAuthors ?s2)
                 = [\<lparr>author_id = author_id a, author_name = toLowerCase n1\<rparr>]"
      using a s2 by simp
    then show ?thesis by blast
  next
    case False
    with one have s1: "blockedAuthors ?s1
        = blockedAuthors s @ [\<lparr>author_id = keygen s, author_name = toLowerCase n1\<rparr>]"
      by simp
    then have "\<exists>a \<in> set (blockedAuthors ?s1). ?f a = toLowerCase n2"
      using same by (simp add: toLowerCase_idem)
    with two have s2: "blockedAuthors ?s2 = blockedAuthors ?s1" by simp
    from False have "filter (\<lambda>x. ?f x = toLowerCase n1) (blockedAuthors s) = []"
      by (simp add: filter_empty_conv)
    then have "filter (\<lambda>x. ?f x = toLowerCase n1) (blockedAuthors ?s2)
                 = [\<lparr>author_id = keygen s, author_name = toLowerCase n1\<rparr>]"
      by (simp add: s2 s1 toLowerCase_idem)
    then show ?thesis by blast
  qed
qed

lemma addAuthor_twice_init:
  assumes same: "toLowerCase n1 = toLowerCase n2"
  shows "blockedAuthors (snd (addAuthor ok_env n2 (snd (addAuthor ok_env n1 init))))
           = [\<lparr>author_id = 1, author_name = toLowerCase n1\<rparr>]"
proof -
  let ?s1 = "snd (addAuthor ok_env n1 init)"
  have s1: "blockedAuthors ?s1 = [\<lparr>author_id = 1, author_name = toLowerCase n1\<rparr>]"
    using addAuthor_fault_free [of init ok_env n1] by (simp add: init_def)
  then have "\<exists>a \<in> set (blockedAuthors ?s1). toLowerCase (author_name a) = toLowerCase n2"
    using same by (simp add: toLowerCase_idem)
  then show ?thesis
    using addAuthor_fault_free [of ?s1 ok_env n2] s1 by (simp split: if_splits)
qed

text \<open>
  C3. For names \<open>n1\<close>, \<open>n2\<close> that are equal in lower case: on the empty store,
  \<open>addAuthor(n1)\<close> followed by \<open>addAuthor(n2)\<close> leaves exactly one record, named
  \<open>lowercase(n1)\<close>; after any sequence of calls, the two adds leave exactly one record with that
  lower-case name, and its name is \<open>lowercase(n1)\<close>. After any sequence of calls of the exported
  functions, in any environments, no two records have the same lower-case name.
\<close>

theorem addAuthor_case_insensitive_unique:
  assumes "toLowerCase n1 = toLowerCase n2"
  shows "blockedAuthors (snd (addAuthor ok_env n2 (snd (addAuthor ok_env n1 init))))
           = [\<lparr>author_id = 1, author_name = toLowerCase n1\<rparr>]
         \<and> (\<exists>k. filter (\<lambda>a. toLowerCase (author_name a) = toLowerCase n1)
                  (blockedAuthors
                     (snd (addAuthor ok_env n2 (snd (addAuthor ok_env n1 (run cs init))))))
                = [\<lparr>author_id = k, author_name = toLowerCase n1\<rparr>])
         \<and> distinct (map (\<lambda>a. toLowerCase (author_name a)) (blockedAuthors (run cs init)))"
proof -
  have inv: "store_inv (run cs init)"
    by (simp add: store_inv_run store_inv_init)
  then have "distinct (map (\<lambda>a. toLowerCase (author_name a)) (blockedAuthors (run cs init)))"
    by (simp add: store_inv_def)
  with assms inv show ?thesis
    using addAuthor_twice_init [of n1 n2] addAuthor_twice [of n1 n2 "run cs init"] by blast
qed

theorem addAuthor_case_insensitive_unique_witness:
  "blockedAuthors (snd (addAuthor ok_env ''pewdiepie'' (snd (addAuthor ok_env ''PewDiePie'' init))))
     = [\<lparr>author_id = 1, author_name = ''pewdiepie''\<rparr>]"
  using addAuthor_case_insensitive_unique [of "''PewDiePie''" "''pewdiepie''" "[]"]
  by (simp add: lower_PewDiePie lower_pewdiepie)

text \<open>
  C8. When the connection is available and the delete request succeeds, \<open>deleteAuthor(id)\<close>
  resolves and the store keeps, in order, exactly the records whose key is not \<open>id\<close>: with no
  such key the store is unchanged, and where keys are distinct the record with key \<open>id\<close> is the
  one record removed. Keys are distinct in every state reached from the initial one.
\<close>

theorem deleteAuthor_removes_key:
  assumes "db s \<noteq> None \<or> \<not> fails e Open" and "\<not> fails e Delete"
  shows "fst (deleteAuthor e k s) = Resolved ()
         \<and> blockedAuthors (snd (deleteAuthor e k s))
             = filter (\<lambda>a. NumKey (int (author_id a)) \<noteq> k) (blockedAuthors s)
         \<and> (k \<notin> (\<lambda>a. NumKey (int (author_id a))) ` set (blockedAuthors s) \<longrightarrow>
              blockedAuthors (snd (deleteAuthor e k s)) = blockedAuthors s)
         \<and> (\<forall>a \<in> set (blockedAuthors s).
              distinct (map author_id (blockedAuthors s)) \<and> k = NumKey (int (author_id a)) \<longrightarrow>
              blockedAuthors (snd (deleteAuthor e k s)) = remove1 a (blockedAuthors s))
         \<and> distinct (map author_id (blockedAuthors (run cs init)))"
proof -
  have keys: "distinct (map author_id (blockedAuthors (run cs init)))"
    using store_inv_run [OF store_inv_init, of cs] by (simp add: store_inv_def)
  from assms(1) obtain h s' where "openDatabase e s = (Resolved h, s')"
    "blockedAuthors s' = blockedAuthors s"
    by (rule openDatabase_available)
  with assms(2) have r: "fst (deleteAuthor e k s) = Resolved ()"
    and f: "blockedAuthors (snd (deleteAuthor e k s))
             = filter (\<lambda>a. NumKey (int (author_id a)) \<noteq> k) (blockedAuthors s)"
    by (simp_all add: deleteAuthor_def)
  have absent: "k \<notin> (\<lambda>a. NumKey (int (author_id a))) ` set (blockedAuthors s) \<longrightarrow>
      blockedAuthors (snd (deleteAuthor e k s)) = blockedAuthors s"
    unfolding f by (auto simp: filter_id_conv)
  have present: "\<forall>a \<in> set (blockedAuthors s).
      distinct (map author_id (blockedAuthors s)) \<and> k = NumKey (int (author_id a)) \<longrightarrow>
      blockedAuthors (snd (deleteAuthor e k s)) = remove1 a (blockedAuthors s)"
    unfolding f using filter_other_keys [of author_id "blockedAuthors s"] by simp
  from r f absent present keys show ?thesis by blast
qed

theorem deleteAuthor_removes_key_witness:
  "fst (deleteAuthor ok_env (NumKey 7) (snd (addAuthor ok_env ''PewDiePie'' init))) = Resolved ()
   \<and> blockedAuthors (snd (deleteAuthor ok_env (NumKey 7) (snd (addAuthor ok_env ''PewDiePie'' init))))
       = [\<lparr>author_id = 1, author_name = ''pewdiepie''\<rparr>]
   \<and> blockedAuthors (snd (deleteAuthor ok_env (NumKey 1) (snd (addAuthor ok_env ''PewDiePie'' init))))
       = []"
  using deleteAuthor_removes_key [of "snd (addAuthor ok_env ''PewDiePie'' init)" ok_env "NumKey 7" "[]"]
        deleteAuthor_removes_key [of "snd (addAuthor ok_env ''PewDiePie'' init)" ok_env "NumKey 1" "[]"]
  by (simp add: add_PewDiePie)

section \<open>Properties of the message listener\<close>

lemma getAuthors_result:
  "fst (getAuthors e s) = Resolved (blockedAuthors s) \<or> (\<exists>err. fst (getAuthors e s) = Rejected err)"
  by (cases e s rule: openDatabase_cases; simp add: getAuthors_def)

text \<open>
  C9. For every message with action \<open>"fetchBlockedAuthors"\<close>, in every environment: the listener
  returns \<open>true\<close>, which keeps the channel open for the response, and either \<open>getAuthors\<close>
  resolves with the current records and the listener sends \<open>{authors: records}\<close>, or
  \<open>getAuthors\<close> rejects and the listener sends \<open>{authors: []}\<close>. A response is always sent.
\<close>

theorem fetchBlockedAuthors_always_answered:
  assumes "action msg = ''fetchBlockedAuthors''"
  shows "fst (snd (onMessage_listener e msg s)) = True
         \<and> ((fst (getAuthors e s) = Resolved (blockedAuthors s)
               \<and> fst (onMessage_listener e msg s) = Some \<lparr>authors = blockedAuthors s\<rparr>)
            \<or> ((\<exists>err. fst (getAuthors e s) = Rejected err)
               \<and> fst (onMessage_listener e msg s) = Some \<lparr>authors = []\<rparr>))"
  using assms getAuthors_result [of e s]
  by (cases "getAuthors e s") (auto simp: onMessage_listener_def)

theorem fetchBlockedAuthors_always_answered_witness:
  "onMessage_listener ok_env \<lparr>action = ''fetchBlockedAuthors''\<rparr>
     (snd (addAuthor ok_env ''PewDiePie'' init))
     = (Some \<lparr>authors = [\<lparr>author_id = 1, author_name = ''pewdiepie''\<rparr>]\<rparr>, True,
        snd (addAuthor ok_env ''PewDiePie'' init))
   \<and> fst (onMessage_listener getAll_fails_env \<lparr>action = ''fetchBlockedAuthors''\<rparr>
          (snd (addAuthor ok_env ''PewDiePie'' init)))
     = Some \<lparr>authors = []\<rparr>
   \<and> fst (snd (onMessage_listener getAll_fails_env \<lparr>action = ''fetchBlockedAuthors''\<rparr>
          (snd (addAuthor ok_env ''PewDiePie'' init))))
     = True"
  using fetchBlockedAuthors_always_answered
          [of "\<lparr>action = ''fetchBlockedAuthors''\<rparr>" ok_env "snd (addAuthor ok_env ''PewDiePie'' init)"]
        fetchBlockedAuthors_always_answered
          [of "\<lparr>action = ''fetchBlockedAuthors''\<rparr>" getAll_fails_env
              "snd (addAuthor ok_env ''PewDiePie'' init)"]
  by (simp add: add_PewDiePie getAuthors_def openDatabase_def openDatabase_executor_def
        getAll_fails_env_def onMessage_listener_def)

end
